theory Spec2Isabelle
  imports Complex_Main
begin

section \<open>JavaScript numbers\<close>

text \<open>
  The engine computes with JavaScript numbers. They are modelled as exact reals extended
  by the three non-finite values a division or a product of the source can produce.
  Rounding to 64-bit doubles and the sign of zero are not modelled: a decimal literal of
  the source (\<open>1.5\<close>, \<open>0.7\<close>, ...) stands for the exact rational, and a finite result is the
  exact result. What is modelled is where JavaScript leaves real arithmetic: division by
  zero gives an infinity or \<open>NaN\<close>, \<open>NaN\<close> propagates through arithmetic, \<open>Math.max\<close> and
  \<open>Math.min\<close>, every comparison with \<open>NaN\<close> is false, and \<open>0\<close> and \<open>NaN\<close> are falsy.
\<close>

datatype jsnum = Fin real | PInf | NInf | NaN

fun js_neg :: "jsnum \<Rightarrow> jsnum" where
  "js_neg (Fin a) = Fin (- a)"
| "js_neg PInf = NInf"
| "js_neg NInf = PInf"
| "js_neg NaN = NaN"

fun js_add :: "jsnum \<Rightarrow> jsnum \<Rightarrow> jsnum" where
  "js_add NaN _ = NaN"
| "js_add _ NaN = NaN"
| "js_add (Fin a) (Fin b) = Fin (a + b)"
| "js_add PInf NInf = NaN"
| "js_add NInf PInf = NaN"
| "js_add PInf _ = PInf"
| "js_add _ PInf = PInf"
| "js_add NInf _ = NInf"
| "js_add _ NInf = NInf"

definition js_sub :: "jsnum \<Rightarrow> jsnum \<Rightarrow> jsnum" where
  "js_sub a b = js_add a (js_neg b)"

fun js_mul :: "jsnum \<Rightarrow> jsnum \<Rightarrow> jsnum" where
  "js_mul NaN _ = NaN"
| "js_mul _ NaN = NaN"
| "js_mul (Fin a) (Fin b) = Fin (a * b)"
| "js_mul (Fin a) PInf = (if a = 0 then NaN else if 0 < a then PInf else NInf)"
| "js_mul (Fin a) NInf = (if a = 0 then NaN else if 0 < a then NInf else PInf)"
| "js_mul PInf (Fin b) = (if b = 0 then NaN else if 0 < b then PInf else NInf)"
| "js_mul NInf (Fin b) = (if b = 0 then NaN else if 0 < b then NInf else PInf)"
| "js_mul PInf PInf = PInf"
| "js_mul NInf NInf = PInf"
| "js_mul PInf NInf = NInf"
| "js_mul NInf PInf = NInf"

fun js_div :: "jsnum \<Rightarrow> jsnum \<Rightarrow> jsnum" where
  "js_div NaN _ = NaN"
| "js_div _ NaN = NaN"
| "js_div (Fin a) (Fin b) =
     (if b = 0 then (if a = 0 then NaN else if 0 < a then PInf else NInf)
      else Fin (a / b))"
| "js_div (Fin a) PInf = Fin 0"
| "js_div (Fin a) NInf = Fin 0"
| "js_div PInf (Fin b) = (if 0 \<le> b then PInf else NInf)"
| "js_div NInf (Fin b) = (if 0 \<le> b then NInf else PInf)"
| "js_div _ _ = NaN"

text \<open>The comparisons \<open><\<close> and \<open><=\<close>: false as soon as one side is \<open>NaN\<close>.\<close>

fun js_less :: "jsnum \<Rightarrow> jsnum \<Rightarrow> bool" where
  "js_less NaN _ = False"
| "js_less _ NaN = False"
| "js_less (Fin a) (Fin b) = (a < b)"
| "js_less PInf _ = False"
| "js_less _ PInf = True"
| "js_less NInf NInf = False"
| "js_less NInf _ = True"
| "js_less _ NInf = False"

fun js_le :: "jsnum \<Rightarrow> jsnum \<Rightarrow> bool" where
  "js_le NaN _ = False"
| "js_le _ NaN = False"
| "js_le (Fin a) (Fin b) = (a \<le> b)"
| "js_le _ PInf = True"
| "js_le NInf _ = True"
| "js_le _ _ = False"

text \<open>\<open>Math.max\<close> and \<open>Math.min\<close> of two arguments: \<open>NaN\<close> if either is \<open>NaN\<close>.\<close>

definition Math_max :: "jsnum \<Rightarrow> jsnum \<Rightarrow> jsnum" where
  "Math_max a b = (if a = NaN \<or> b = NaN then NaN else if js_less a b then b else a)"

definition Math_min :: "jsnum \<Rightarrow> jsnum \<Rightarrow> jsnum" where
  "Math_min a b = (if a = NaN \<or> b = NaN then NaN else if js_less b a then b else a)"

text \<open>Truthiness of a number, and \<open>a || b\<close> on numbers.\<close>

fun truthy :: "jsnum \<Rightarrow> bool" where
  "truthy (Fin a) = (a \<noteq> 0)"
| "truthy NaN = False"
| "truthy PInf = True"
| "truthy NInf = True"

definition js_or :: "jsnum \<Rightarrow> jsnum \<Rightarrow> jsnum" where
  "js_or a b = (if truthy a then a else b)"

section \<open>The configuration (src/src/types/game.ts, lines 1--69)\<close>

text \<open>
  Of \<open>PlaylistMetrics\<close> and \<open>GameConfiguration\<close> the fields the engine's arithmetic and
  dispatch read are kept; titles, palette, sprite descriptions and the other strings
  only reach the renderer. The optional field \<open>metrics?\<close> is an \<open>option\<close>. The field
  \<open>gameType\<close> is a string: the TypeScript type lists four literals, but the value arrives
  as parsed JSON and the \<open>switch\<close> of \<open>createGame\<close> has a \<open>default\<close> branch for any other.
\<close>

record PlaylistMetrics =
  trackCount :: jsnum
  avgTempo :: jsnum
  avgEnergy :: jsnum
  avgValence :: jsnum
  avgAcousticness :: jsnum
  avgDanceability :: jsnum
  avgLoudness :: jsnum

record GameConfiguration =
  gameType :: string
  gravity :: jsnum
  playerSpeed :: jsnum
  spawnRateMs :: jsnum
  difficulty :: jsnum
  metrics :: "PlaylistMetrics option"

section \<open>The music helpers of src/src/game/engine.ts (lines 37--64)\<close>

definition getMusicSpawnRate :: "GameConfiguration \<Rightarrow> jsnum" where
  "getMusicSpawnRate config =
     (case metrics config of
        None \<Rightarrow> spawnRateMs config
      | Some m \<Rightarrow>
          (let bpm = avgTempo m;
               energy = avgEnergy m;
               beatMs = js_div (Fin 60000) bpm;
               energyMultiplier = js_sub (Fin 1.5) energy
           in Math_max (Fin 400) (Math_min (Fin 3000) (js_mul beatMs energyMultiplier))))"

definition getMusicSpeedMultiplier :: "GameConfiguration \<Rightarrow> jsnum" where
  "getMusicSpeedMultiplier config =
     (case metrics config of
        None \<Rightarrow> Fin 1
      | Some m \<Rightarrow>
          (let tempo = avgTempo m;
               energy = avgEnergy m;
               tempoFactor = js_div tempo (Fin 120)
           in js_mul tempoFactor (js_add (Fin 0.7) (js_mul energy (Fin 0.6)))))"

definition getMusicGravity :: "GameConfiguration \<Rightarrow> jsnum" where
  "getMusicGravity config =
     (case metrics config of
        None \<Rightarrow> gravity config
      | Some m \<Rightarrow>
          (let acousticness = avgAcousticness m
           in js_mul (gravity config) (js_sub (Fin 1.2) (js_mul acousticness (Fin 0.7)))))"

section \<open>The music helpers of the second engine (src/src/types/game.ts, lines 93--120)\<close>

text \<open>
  The repository holds a second, later text of the engine, after the type declarations
  in src/src/types/game.ts. Its helpers carry the suffix \<open>_v2\<close> here. \<open>getBpm\<close> and
  \<open>getBeatMs\<close> exist only there. \<open>config.metrics?.avgTempo || 120\<close> is 120 when the metrics
  are absent and when the tempo is falsy.
\<close>

definition getBpm :: "GameConfiguration \<Rightarrow> jsnum" where
  "getBpm config =
     (case metrics config of None \<Rightarrow> Fin 120 | Some m \<Rightarrow> js_or (avgTempo m) (Fin 120))"

definition getBeatMs :: "GameConfiguration \<Rightarrow> jsnum" where
  "getBeatMs config = js_div (Fin 60000) (getBpm config)"

definition getMusicSpawnRate_v2 :: "GameConfiguration \<Rightarrow> jsnum" where
  "getMusicSpawnRate_v2 config =
     (case metrics config of
        None \<Rightarrow> spawnRateMs config
      | Some m \<Rightarrow>
          (let beatMs = getBeatMs config;
               energy = avgEnergy m;
               energyMultiplier = js_sub (Fin 1.5) energy
           in Math_max (Fin 400) (Math_min (Fin 3000) (js_mul beatMs energyMultiplier))))"

definition getMusicSpeedMultiplier_v2 :: "GameConfiguration \<Rightarrow> jsnum" where
  "getMusicSpeedMultiplier_v2 config =
     (case metrics config of
        None \<Rightarrow> Fin 1
      | Some m \<Rightarrow>
          (let tempoFactor = js_div (avgTempo m) (Fin 120)
           in js_mul tempoFactor (js_add (Fin 0.7) (js_mul (avgEnergy m) (Fin 0.6)))))"

definition getMusicGravity_v2 :: "GameConfiguration \<Rightarrow> jsnum" where
  "getMusicGravity_v2 config =
     (case metrics config of
        None \<Rightarrow> gravity config
      | Some m \<Rightarrow>
          js_mul (gravity config) (js_sub (Fin 1.2) (js_mul (avgAcousticness m) (Fin 0.7))))"

section \<open>The clamp of the specification\<close>

text \<open>
  The specification writes the spawn interval with \<open>clamp(x, lo, hi)\<close>, the usual
  \<open>min(max(x, lo), hi)\<close>; the source nests \<open>Math.max\<close> and \<open>Math.min\<close> the other way round.
\<close>

definition clamp :: "jsnum \<Rightarrow> jsnum \<Rightarrow> jsnum \<Rightarrow> jsnum" where
  "clamp x lo hi = Math_min (Math_max x lo) hi"

section \<open>The session of \<open>createGame\<close> (src/src/game/engine.ts, lines 66--109)\<close>

text \<open>
  \<open>createGame\<close> closes over one variable, \<open>score\<close>, and the two callbacks of the caller.
  The callbacks are external: the model records each invocation, in order, with its
  argument. The score starts at 0 and only ever receives the integer constants of the
  call sites, so it is an \<open>int\<close>. The second engine text (src/src/types/game.ts,
  lines 181--645) has the same \<open>createGame\<close>, \<open>addScore\<close>, \<open>gameOver\<close>, timers and handlers; it
  differs in how actors are drawn, which the model does not hold.
\<close>

datatype callback = OnScore int | OnGameOver int

text \<open>Which of the four \<open>setup...\<close> functions built the scene.\<close>

datatype controller = Platformer | Dodge | Collector | Runner

text \<open>
  The actors that carry event handlers, by the handlers the source attaches to them:
  \<open>col\<close> of setupPlatformer, \<open>enemy\<close> of setupPlatformer, \<open>obs\<close> of setupDodge, \<open>p\<close> of
  setupCollector and \<open>obs\<close> of setupRunner.
\<close>

datatype actorKind = Collectible | Enemy | DodgeObstacle | Particle | RunnerObstacle

text \<open>
  The state a running game holds: the closure of \<open>createGame\<close> (\<open>score\<close>, and \<open>calls\<close>, the
  record of callback invocations), the counter \<open>missed\<close> of setupCollector, and the actors
  with handlers that are in the scene, each named by the number of its creation.
\<close>

record game =
  mode :: controller
  score :: int
  calls :: "callback list"
  missed :: nat
  scene :: "(nat \<times> actorKind) list"
  created :: nat

definition addScore :: "int \<Rightarrow> game \<Rightarrow> game" where
  "addScore points g =
     g\<lparr>score := score g + points, calls := calls g @ [OnScore (score g + points)]\<rparr>"

definition gameOver :: "game \<Rightarrow> game" where
  "gameOver g = g\<lparr>calls := calls g @ [OnGameOver (score g)]\<rparr>"

text \<open>\<open>scene.add(actor)\<close> for a new actor, and \<open>actor.kill()\<close>, which takes it out of the scene.\<close>

definition scene_add :: "actorKind \<Rightarrow> game \<Rightarrow> game" where
  "scene_add k g = g\<lparr>scene := scene g @ [(created g, k)], created := Suc (created g)\<rparr>"

definition kill :: "nat \<Rightarrow> game \<Rightarrow> game" where
  "kill a g = g\<lparr>scene := filter (\<lambda>(i, k). i \<noteq> a) (scene g)\<rparr>"

definition maxMissed :: nat where
  "maxMissed = 10"

subsection \<open>The handlers\<close>

text \<open>
  \<open>collisionstart\<close> of actor \<open>a\<close>; \<open>isPlayer\<close> is the test \<open>evt.other.owner === player\<close>.
\<close>

fun collisionstart :: "actorKind \<Rightarrow> nat \<Rightarrow> bool \<Rightarrow> game \<Rightarrow> game" where
  "collisionstart Collectible a isPlayer g = (if isPlayer then kill a (addScore 10 g) else g)"
| "collisionstart Enemy a isPlayer g = (if isPlayer then gameOver g else g)"
| "collisionstart DodgeObstacle a isPlayer g = (if isPlayer then gameOver g else g)"
| "collisionstart Particle a isPlayer g = (if isPlayer then kill a (addScore 5 g) else g)"
| "collisionstart RunnerObstacle a isPlayer g = (if isPlayer then gameOver g else g)"

text \<open>\<open>exitviewport\<close> of actor \<open>a\<close>; the collectibles of the platformer have no such handler.\<close>

fun exitviewport :: "actorKind \<Rightarrow> nat \<Rightarrow> game \<Rightarrow> game" where
  "exitviewport Collectible a g = g"
| "exitviewport Enemy a g = addScore 5 (kill a g)"
| "exitviewport DodgeObstacle a g = addScore 1 (kill a g)"
| "exitviewport Particle a g =
     (let g1 = kill a g;
          g2 = g1\<lparr>missed := missed g1 + 1\<rparr>
      in if missed g2 \<ge> maxMissed then gameOver g2 else g2)"
| "exitviewport RunnerObstacle a g = addScore 10 (kill a g)"

text \<open>
  The spawn timer's function: \<open>spawnEnemy\<close>, \<open>spawnObstacle\<close>, \<open>spawnParticle\<close>, \<open>spawnObs\<close>.
\<close>

fun spawn :: "controller \<Rightarrow> game \<Rightarrow> game" where
  "spawn Platformer g = scene_add Enemy g"
| "spawn Dodge g = scene_add DodgeObstacle g"
| "spawn Collector g = scene_add Particle g"
| "spawn Runner g = scene_add RunnerObstacle g"

text \<open>\<open>scoreTimer\<close>, which only setupDodge (500 ms) and setupRunner (300 ms) register.\<close>

fun scoreTimer :: "controller \<Rightarrow> game \<Rightarrow> game" where
  "scoreTimer Dodge g = addScore 1 g"
| "scoreTimer Runner g = addScore 1 g"
| "scoreTimer Platformer g = g"
| "scoreTimer Collector g = g"

text \<open>
  The part of the \<open>preupdate\<close> handler that touches the session: the test
  \<open>player.pos.y > engine.drawHeight + 100\<close> of the platformer and the runner. The rest of
  the handler moves the player.
\<close>

fun preupdate :: "controller \<Rightarrow> jsnum \<Rightarrow> jsnum \<Rightarrow> game \<Rightarrow> game" where
  "preupdate Platformer y drawHeight g =
     (if js_less (js_add drawHeight (Fin 100)) y then gameOver g else g)"
| "preupdate Runner y drawHeight g =
     (if js_less (js_add drawHeight (Fin 100)) y then gameOver g else g)"
| "preupdate Dodge y drawHeight g = g"
| "preupdate Collector y drawHeight g = g"

subsection \<open>Setting up\<close>

definition new_game :: "controller \<Rightarrow> game" where
  "new_game c = \<lparr>mode = c, score = 0, calls = [], missed = 0, scene = [], created = 0\<rparr>"

text \<open>
  setupPlatformer builds \<open>platformCount = 8\<close> platforms and puts a collectible on the
  \<open>i\<close>-th when \<open>Math.random() > 0.4\<close>; \<open>coin i\<close> is the outcome of that test.
\<close>

definition platformCount :: nat where
  "platformCount = 8"

definition setupPlatformer :: "(nat \<Rightarrow> bool) \<Rightarrow> game" where
  "setupPlatformer coin =
     fold (\<lambda>i g. if coin i then scene_add Collectible g else g) [0..<platformCount]
       (new_game Platformer)"

definition setupDodge :: game where
  "setupDodge = new_game Dodge"

definition setupCollector :: game where
  "setupCollector = new_game Collector"

definition setupRunner :: game where
  "setupRunner = new_game Runner"

text \<open>The \<open>switch\<close> of \<open>createGame\<close>, in the order of its cases.\<close>

definition createGame :: "GameConfiguration \<Rightarrow> (nat \<Rightarrow> bool) \<Rightarrow> game" where
  "createGame config coin =
     (if gameType config = ''platformer'' then setupPlatformer coin
      else if gameType config = ''dodge'' then setupDodge
      else if gameType config = ''collector'' then setupCollector
      else if gameType config = ''runner'' then setupRunner
      else setupPlatformer coin)"

subsection \<open>What the Excalibur engine delivers\<close>

text \<open>
  The events the library raises while the game runs: a firing of the spawn timer or of
  the score timer, a \<open>collisionstart\<close> on an actor (with the outcome of the test
  \<open>evt.other.owner === player\<close>), an \<open>exitviewport\<close> on an actor, and a \<open>preupdate\<close> of the
  scene with \<open>player.pos.y\<close> and \<open>engine.drawHeight\<close>.
\<close>

datatype event =
    SpawnTimer
  | ScoreTimer
  | CollisionStart nat bool
  | ExitViewport nat
  | PreUpdate jsnum jsnum

text \<open>
  Modelled from the spec: the dispatch of the Excalibur library, which is not part of
  the repository. Section 4.2 of the specification: removal (\<open>kill\<close>) excludes an entity
  from future tick processing, so an actor that is not in the scene receives no
  \<open>collisionstart\<close> and no \<open>exitviewport\<close>. The handler that runs is the one the source
  attached to the actor.
\<close>

fun deliver :: "event \<Rightarrow> game \<Rightarrow> game" where
  "deliver SpawnTimer g = spawn (mode g) g"
| "deliver ScoreTimer g = scoreTimer (mode g) g"
| "deliver (CollisionStart a isPlayer) g =
     (case map_of (scene g) a of None \<Rightarrow> g | Some k \<Rightarrow> collisionstart k a isPlayer g)"
| "deliver (ExitViewport a) g =
     (case map_of (scene g) a of None \<Rightarrow> g | Some k \<Rightarrow> exitviewport k a g)"
| "deliver (PreUpdate y drawHeight) g = preupdate (mode g) y drawHeight g"

fun run :: "event list \<Rightarrow> game \<Rightarrow> game" where
  "run [] g = g"
| "run (e # es) g = run es (deliver e g)"

text \<open>How often \<open>onGameOver\<close> has been invoked, and whether it has been at all.\<close>

fun isGameOver :: "callback \<Rightarrow> bool" where
  "isGameOver (OnGameOver n) = True"
| "isGameOver (OnScore n) = False"

definition gameOverCount :: "game \<Rightarrow> nat" where
  "gameOverCount g = length (filter isGameOver (calls g))"

definition terminal :: "game \<Rightarrow> bool" where
  "terminal g = (0 < gameOverCount g)"

section \<open>The beat pulse\<close>

text \<open>
  What the pulse timer's function changes: the opacity of the overlay, the calls of
  \<open>actions.fade(opacity, duration)\<close> and of \<open>camera.shake(x, y, duration)\<close> it makes, and
  the beat counter (a variable of the second engine only).
\<close>

record pulse =
  opacity :: jsnum
  fades :: "(jsnum \<times> jsnum) list"
  beatCount :: nat
  shakes :: "(jsnum \<times> jsnum \<times> jsnum) list"

definition new_pulse :: pulse where
  "new_pulse = \<lparr>opacity = Fin 0, fades = [], beatCount = 0, shakes = []\<rparr>"

subsection \<open>\<open>addBeatPulse\<close> of src/src/game/engine.ts (lines 10--35)\<close>

definition beatInterval :: "GameConfiguration \<Rightarrow> jsnum" where
  "beatInterval config =
     (let bpm = (case metrics config of None \<Rightarrow> Fin 120 | Some m \<Rightarrow> js_or (avgTempo m) (Fin 120))
      in js_div (Fin 60000) bpm)"

definition pulse_fcn :: "GameConfiguration \<Rightarrow> pulse \<Rightarrow> pulse" where
  "pulse_fcn config p =
     p\<lparr>opacity := Fin 0.08,
       fades := fades p @ [(Fin 0, js_mul (beatInterval config) (Fin 0.8))]\<rparr>"

subsection \<open>\<open>addBeatPulse\<close> of src/src/types/game.ts (lines 128--163)\<close>

definition pulse_energy :: "GameConfiguration \<Rightarrow> jsnum" where
  "pulse_energy config =
     (case metrics config of None \<Rightarrow> Fin 0.5 | Some m \<Rightarrow> js_or (avgEnergy m) (Fin 0.5))"

definition pulse_fcn_v2 :: "GameConfiguration \<Rightarrow> pulse \<Rightarrow> pulse" where
  "pulse_fcn_v2 config p =
     (let beatInterval = getBeatMs config;
          energy = pulse_energy config;
          p1 = p\<lparr>beatCount := beatCount p + 1\<rparr>;
          intensity = js_add (Fin 0.04) (js_mul energy (Fin 0.06));
          p2 = p1\<lparr>opacity := intensity,
                 fades := fades p1 @ [(Fin 0, js_mul beatInterval (Fin 0.8))]\<rparr>
      in if beatCount p2 mod 4 = 0 \<and> js_less (Fin 0.5) energy
         then (let shakeAmt = js_mul (js_sub energy (Fin 0.5)) (Fin 6)
               in p2\<lparr>shakes := shakes p2 @ [(shakeAmt, shakeAmt, js_mul beatInterval (Fin 0.3))]\<rparr>)
         else p2)"

section \<open>Example inputs\<close>

definition metrics_of :: "jsnum \<Rightarrow> jsnum \<Rightarrow> jsnum \<Rightarrow> PlaylistMetrics" where
  "metrics_of tempo energy acousticness =
     \<lparr>trackCount = Fin 20, avgTempo = tempo, avgEnergy = energy, avgValence = Fin 0.5,
      avgAcousticness = acousticness, avgDanceability = Fin 0.5, avgLoudness = Fin (- 8)\<rparr>"

definition config_of :: "string \<Rightarrow> PlaylistMetrics option \<Rightarrow> GameConfiguration" where
  "config_of gt mo =
     \<lparr>gameType = gt, gravity = Fin 1, playerSpeed = Fin 200, spawnRateMs = Fin 1500,
      difficulty = Fin 5, metrics = mo\<rparr>"

definition no_coins :: "nat \<Rightarrow> bool" where
  "no_coins i = False"

definition eleven_missed :: "event list" where
  "eleven_missed = replicate 11 SpawnTimer @ map ExitViewport [0..<11]"

section \<open>The invariant of a collector game\<close>

text \<open>
  What holds of every state a collector game reaches: the scene holds only particles,
  each once and each created earlier; \<open>onGameOver\<close> has been invoked once for every miss
  from the tenth on; and every particle created is in the scene, was missed, or was
  collected for 5 points.
\<close>

definition collector_inv :: "game \<Rightarrow> bool" where
  "collector_inv g \<longleftrightarrow>
     mode g = Collector \<and>
     snd ` set (scene g) \<subseteq> {Particle} \<and>
     distinct (map fst (scene g)) \<and>
     (\<forall>i \<in> fst ` set (scene g). i < created g) \<and>
     gameOverCount g = missed g - (maxMissed - 1) \<and>
     5 * int (created g) = 5 * int (length (scene g)) + 5 * int (missed g) + score g"

section \<open>The music mapper\<close>

lemma clamp_code: "Math_max (Fin 400) (Math_min (Fin 3000) x) = clamp x (Fin 400) (Fin 3000)"
  by (cases x) (simp_all add: clamp_def Math_max_def Math_min_def)

lemma clamp_range:
  "x \<noteq> NaN \<Longrightarrow>
   js_le (Fin 400) (clamp x (Fin 400) (Fin 3000)) \<and> js_le (clamp x (Fin 400) (Fin 3000)) (Fin 3000)"
  by (cases x) (simp_all add: clamp_def Math_max_def Math_min_def)

lemma raw_interval_not_NaN:
  "js_less (Fin 0) t \<Longrightarrow> js_le (Fin 0) e \<Longrightarrow> js_le e (Fin 1) \<Longrightarrow>
   js_mul (js_div (Fin 60000) t) (js_sub (Fin 1.5) e) \<noteq> NaN"
  by (cases t; cases e) (simp_all add: js_sub_def)

text \<open>
  Claim C4. Without metrics \<open>getMusicSpawnRate\<close> returns the configuration's own
  \<open>spawnRateMs\<close>; with metrics it returns
  \<open>clamp((60000 / avgTempo) * (1.5 - avgEnergy), 400, 3000)\<close>; and for a tempo above 0 and
  an energy between 0 and 1 the result lies between 400 and 3000.
\<close>

theorem getMusicSpawnRate_spec:
  "(metrics cfg = None \<longrightarrow> getMusicSpawnRate cfg = spawnRateMs cfg) \<and>
   (\<forall>m. metrics cfg = Some m \<longrightarrow>
      getMusicSpawnRate cfg =
        clamp (js_mul (js_div (Fin 60000) (avgTempo m)) (js_sub (Fin 1.5) (avgEnergy m)))
          (Fin 400) (Fin 3000) \<and>
      (js_less (Fin 0) (avgTempo m) \<and> js_le (Fin 0) (avgEnergy m) \<and> js_le (avgEnergy m) (Fin 1) \<longrightarrow>
         js_le (Fin 400) (getMusicSpawnRate cfg) \<and> js_le (getMusicSpawnRate cfg) (Fin 3000)))"
  by (auto simp: getMusicSpawnRate_def Let_def clamp_code dest!: raw_interval_not_NaN clamp_range)

text \<open>
  At 140 BPM and energy 0.8 the raw interval is 300 ms and the result is the floor, 400;
  without metrics the result is the configured 1500.
\<close>

theorem getMusicSpawnRate_spec_witness:
  "getMusicSpawnRate (config_of ''dodge'' None) = Fin 1500 \<and>
   getMusicSpawnRate (config_of ''dodge'' (Some (metrics_of (Fin 140) (Fin 0.8) (Fin 0.2)))) = Fin 400 \<and>
   js_le (Fin 400)
     (getMusicSpawnRate (config_of ''dodge'' (Some (metrics_of (Fin 140) (Fin 0.8) (Fin 0.2))))) \<and>
   js_le (getMusicSpawnRate (config_of ''dodge'' (Some (metrics_of (Fin 140) (Fin 0.8) (Fin 0.2)))))
     (Fin 3000)"
  using getMusicSpawnRate_spec [of "config_of ''dodge'' None"]
    getMusicSpawnRate_spec [of "config_of ''dodge'' (Some (metrics_of (Fin 140) (Fin 0.8) (Fin 0.2)))"]
  by (simp add: config_of_def metrics_of_def clamp_def Math_max_def Math_min_def js_sub_def)

text \<open>
  Claim C5. Without metrics \<open>getMusicSpeedMultiplier\<close> returns 1; with metrics it returns
  \<open>(avgTempo / 120) * (0.7 + avgEnergy * 0.6)\<close>; at tempo 140 and energy 0.8 that is
  \<open>(140 / 120) * (0.7 + 0.48)\<close>, within a thousandth of 1.377.
\<close>

theorem getMusicSpeedMultiplier_spec:
  "(metrics cfg = None \<longrightarrow> getMusicSpeedMultiplier cfg = Fin 1) \<and>
   (\<forall>m. metrics cfg = Some m \<longrightarrow>
      getMusicSpeedMultiplier cfg =
        js_mul (js_div (avgTempo m) (Fin 120)) (js_add (Fin 0.7) (js_mul (avgEnergy m) (Fin 0.6))) \<and>
      (avgTempo m = Fin 140 \<and> avgEnergy m = Fin 0.8 \<longrightarrow>
         getMusicSpeedMultiplier cfg = Fin ((140 / 120) * (0.7 + 0.48)) \<and>
         \<bar>(140 / 120) * (0.7 + 0.48) - (1.377::real)\<bar> < 0.001))"
  by (auto simp: getMusicSpeedMultiplier_def Let_def)

theorem getMusicSpeedMultiplier_spec_witness:
  "getMusicSpeedMultiplier (config_of ''dodge'' None) = Fin 1 \<and>
   getMusicSpeedMultiplier (config_of ''dodge'' (Some (metrics_of (Fin 140) (Fin 0.8) (Fin 0.2))))
     = Fin (413 / 300)"
  using getMusicSpeedMultiplier_spec [of "config_of ''dodge'' None"]
    getMusicSpeedMultiplier_spec
      [of "config_of ''dodge'' (Some (metrics_of (Fin 140) (Fin 0.8) (Fin 0.2)))"]
  by (simp add: config_of_def metrics_of_def)

text \<open>
  Claim C6. Without metrics \<open>getMusicGravity\<close> returns the configuration's \<open>gravity\<close>; with
  metrics it returns \<open>gravity * (1.2 - avgAcousticness * 0.7)\<close>; with gravity 1.0 that is
  1.06 at acousticness 0.2 and 0.5 at acousticness 1.0.
\<close>

theorem getMusicGravity_spec:
  "(metrics cfg = None \<longrightarrow> getMusicGravity cfg = gravity cfg) \<and>
   (\<forall>m. metrics cfg = Some m \<longrightarrow>
      getMusicGravity cfg =
        js_mul (gravity cfg) (js_sub (Fin 1.2) (js_mul (avgAcousticness m) (Fin 0.7))) \<and>
      (gravity cfg = Fin 1.0 \<and> avgAcousticness m = Fin 0.2 \<longrightarrow> getMusicGravity cfg = Fin 1.06) \<and>
      (gravity cfg = Fin 1.0 \<and> avgAcousticness m = Fin 1.0 \<longrightarrow> getMusicGravity cfg = Fin 0.5))"
  by (auto simp: getMusicGravity_def Let_def js_sub_def)

theorem getMusicGravity_spec_witness:
  "getMusicGravity (config_of ''runner'' None) = Fin 1 \<and>
   getMusicGravity (config_of ''runner'' (Some (metrics_of (Fin 140) (Fin 0.8) (Fin 0.2)))) = Fin 1.06 \<and>
   getMusicGravity (config_of ''runner'' (Some (metrics_of (Fin 140) (Fin 0.8) (Fin 1.0)))) = Fin 0.5"
  using getMusicGravity_spec [of "config_of ''runner'' None"]
    getMusicGravity_spec [of "config_of ''runner'' (Some (metrics_of (Fin 140) (Fin 0.8) (Fin 0.2)))"]
    getMusicGravity_spec [of "config_of ''runner'' (Some (metrics_of (Fin 140) (Fin 0.8) (Fin 1.0)))"]
  by (simp add: config_of_def metrics_of_def js_sub_def)

subsection \<open>The two engine texts compared\<close>

text \<open>
  With metrics whose tempo is 0, the first engine divides 60000 by 0 and clamps the
  infinite interval to 3000; the second falls back to 120 BPM and returns
  \<open>500 * (1.5 - 0.5) = 500\<close>.
\<close>

theorem spawn_rates_differ_counterexample:
  "getMusicSpawnRate (config_of ''dodge'' (Some (metrics_of (Fin 0) (Fin 0.5) (Fin 0.2)))) = Fin 3000 \<and>
   getMusicSpawnRate_v2 (config_of ''dodge'' (Some (metrics_of (Fin 0) (Fin 0.5) (Fin 0.2)))) = Fin 500"
  by (simp add: getMusicSpawnRate_def getMusicSpawnRate_v2_def getBeatMs_def getBpm_def js_or_def
      config_of_def metrics_of_def Math_max_def Math_min_def js_sub_def)

text \<open>
  Claim C8, amended. The speed multiplier and the gravity of the two engine texts are
  equal for every configuration; the spawn rates are equal whenever the metrics are
  absent or the tempo is truthy (neither 0 nor \<open>NaN\<close>).
\<close>

theorem engines_agree:
  "getMusicSpeedMultiplier_v2 cfg = getMusicSpeedMultiplier cfg \<and>
   getMusicGravity_v2 cfg = getMusicGravity cfg \<and>
   ((metrics cfg = None \<or> (\<exists>m. metrics cfg = Some m \<and> truthy (avgTempo m))) \<longrightarrow>
      getMusicSpawnRate_v2 cfg = getMusicSpawnRate cfg)"
  by (auto simp: getMusicSpeedMultiplier_v2_def getMusicSpeedMultiplier_def getMusicGravity_v2_def
      getMusicGravity_def getMusicSpawnRate_v2_def getMusicSpawnRate_def getBeatMs_def getBpm_def
      js_or_def Let_def split: option.splits)

theorem engines_agree_witness:
  "getMusicSpawnRate_v2 (config_of ''dodge'' (Some (metrics_of (Fin 140) (Fin 0.8) (Fin 0.2)))) =
     getMusicSpawnRate (config_of ''dodge'' (Some (metrics_of (Fin 140) (Fin 0.8) (Fin 0.2)))) \<and>
   truthy (avgTempo (metrics_of (Fin 140) (Fin 0.8) (Fin 0.2)))"
  using engines_agree [of "config_of ''dodge'' (Some (metrics_of (Fin 140) (Fin 0.8) (Fin 0.2)))"]
  by (simp add: config_of_def metrics_of_def)

section \<open>The session\<close>

lemma addScore_simps:
  "score (addScore n g) = score g + n"
  "calls (addScore n g) = calls g @ [OnScore (score g + n)]"
  "missed (addScore n g) = missed g"
  "scene (addScore n g) = scene g"
  "created (addScore n g) = created g"
  "mode (addScore n g) = mode g"
  by (simp_all add: addScore_def)

lemma gameOver_simps:
  "score (gameOver g) = score g"
  "calls (gameOver g) = calls g @ [OnGameOver (score g)]"
  "missed (gameOver g) = missed g"
  "scene (gameOver g) = scene g"
  "created (gameOver g) = created g"
  "mode (gameOver g) = mode g"
  by (simp_all add: gameOver_def)

lemma kill_simps:
  "score (kill a g) = score g"
  "calls (kill a g) = calls g"
  "missed (kill a g) = missed g"
  "scene (kill a g) = filter (\<lambda>(i, k). i \<noteq> a) (scene g)"
  "created (kill a g) = created g"
  "mode (kill a g) = mode g"
  by (simp_all add: kill_def)

lemma scene_add_simps:
  "score (scene_add k g) = score g"
  "calls (scene_add k g) = calls g"
  "missed (scene_add k g) = missed g"
  "scene (scene_add k g) = scene g @ [(created g, k)]"
  "created (scene_add k g) = Suc (created g)"
  "mode (scene_add k g) = mode g"
  by (simp_all add: scene_add_def)

lemmas session_simps = addScore_simps gameOver_simps kill_simps scene_add_simps

lemma gameOverCount_simps:
  "gameOverCount (addScore n g) = gameOverCount g"
  "gameOverCount (gameOver g) = Suc (gameOverCount g)"
  "gameOverCount (kill a g) = gameOverCount g"
  "gameOverCount (scene_add k g) = gameOverCount g"
  "gameOverCount (g\<lparr>missed := n'\<rparr>) = gameOverCount g"
  by (simp_all add: gameOverCount_def session_simps)

lemma mode_collisionstart: "mode (collisionstart k a p g) = mode g"
  by (cases k) (simp_all add: session_simps)

lemma mode_exitviewport: "mode (exitviewport k a g) = mode g"
  by (cases k) (simp_all add: session_simps Let_def)

lemma mode_deliver: "mode (deliver e g) = mode g"
proof (cases e)
  case SpawnTimer
  then show ?thesis by (cases "mode g") (simp_all add: session_simps)
next
  case ScoreTimer
  then show ?thesis by (cases "mode g") (simp_all add: session_simps)
next
  case (CollisionStart a p)
  then show ?thesis
    by (simp add: mode_collisionstart split: option.splits)
next
  case (ExitViewport a)
  then show ?thesis
    by (simp add: mode_exitviewport split: option.splits)
next
  case (PreUpdate y h)
  then show ?thesis by (cases "mode g") (simp_all add: session_simps)
qed

lemma score_collisionstart: "score (collisionstart k a p g) - score g \<in> {0, 1, 5, 10}"
  by (cases k) (simp_all add: session_simps)

lemma score_exitviewport: "score (exitviewport k a g) - score g \<in> {0, 1, 5, 10}"
  by (cases k) (simp_all add: session_simps Let_def)

lemma score_deliver: "score (deliver e g) - score g \<in> {0, 1, 5, 10}"
proof (cases e)
  case SpawnTimer
  then show ?thesis by (cases "mode g") (simp_all add: session_simps)
next
  case ScoreTimer
  then show ?thesis by (cases "mode g") (simp_all add: session_simps)
next
  case (CollisionStart a p)
  then show ?thesis
    using score_collisionstart [of _ a p g] by (cases "map_of (scene g) a") simp_all
next
  case (ExitViewport a)
  then show ?thesis
    using score_exitviewport [of _ a g] by (cases "map_of (scene g) a") simp_all
next
  case (PreUpdate y h)
  then show ?thesis by (cases "mode g") (simp_all add: session_simps)
qed

lemma score_deliver_mono: "score g \<le> score (deliver e g)"
  using score_deliver [of e g] by auto

lemma score_run_mono: "score g \<le> score (run evs g)"
proof (induction evs arbitrary: g)
  case Nil
  show ?case by simp
next
  case (Cons e evs)
  have "score g \<le> score (deliver e g)" by (rule score_deliver_mono)
  also have "\<dots> \<le> score (run evs (deliver e g))" by (rule Cons.IH)
  finally show ?case by simp
qed

text \<open>
  A dodge game in which one obstacle has been spawned and has hit the player.
\<close>

lemma dodge_hit_eq:
  "run [SpawnTimer, CollisionStart 0 True] (createGame (config_of ''dodge'' None) no_coins) =
     \<lparr>mode = Dodge, score = 0, calls = [OnGameOver 0], missed = 0,
      scene = [(0, DodgeObstacle)], created = 1\<rparr>"
  by (simp add: createGame_def config_of_def setupDodge_def new_game_def scene_add_def
      gameOver_def)

text \<open>
  Two obstacles of a dodge game hit the player one after the other: \<open>onGameOver\<close> is
  invoked twice.
\<close>

theorem gameOver_twice_counterexample:
  "calls (run [SpawnTimer, SpawnTimer, CollisionStart 0 True, CollisionStart 1 True]
      (createGame (config_of ''dodge'' None) no_coins)) = [OnGameOver 0, OnGameOver 0]"
  by (simp add: createGame_def config_of_def setupDodge_def new_game_def scene_add_def
      gameOver_def)

text \<open>
  Claim C1, amended. \<open>gameOver\<close> has no guard: every call invokes \<open>onGameOver\<close> with the
  current score, whether or not it was invoked before, and so does every collision of an
  enemy or obstacle in the scene with the player, and every \<open>preupdate\<close> of a platformer
  or runner whose player is more than 100 below the viewport.
\<close>

theorem gameOver_unguarded:
  "calls (gameOver g) = calls g @ [OnGameOver (score g)] \<and>
   gameOverCount (gameOver g) = Suc (gameOverCount g) \<and>
   (\<forall>a k. map_of (scene g) a = Some k \<and> k \<in> {Enemy, DodgeObstacle, RunnerObstacle} \<longrightarrow>
      calls (deliver (CollisionStart a True) g) = calls g @ [OnGameOver (score g)] \<and>
      gameOverCount (deliver (CollisionStart a True) g) = Suc (gameOverCount g)) \<and>
   (\<forall>y drawHeight. mode g \<in> {Platformer, Runner} \<and> js_less (js_add drawHeight (Fin 100)) y \<longrightarrow>
      calls (deliver (PreUpdate y drawHeight) g) = calls g @ [OnGameOver (score g)])"
  by (auto simp: gameOver_simps gameOverCount_simps)

theorem gameOver_unguarded_witness:
  "map_of (scene (run [SpawnTimer, CollisionStart 0 True]
       (createGame (config_of ''dodge'' None) no_coins))) 0 = Some DodgeObstacle \<and>
   calls (deliver (CollisionStart 0 True) (run [SpawnTimer, CollisionStart 0 True]
       (createGame (config_of ''dodge'' None) no_coins))) = [OnGameOver 0, OnGameOver 0] \<and>
   js_less (js_add (Fin 600) (Fin 100)) (Fin 800) \<and>
   calls (deliver (PreUpdate (Fin 800) (Fin 600)) (gameOver (new_game Runner))) =
     [OnGameOver 0, OnGameOver 0]"
  using gameOver_unguarded [of "run [SpawnTimer, CollisionStart 0 True]
       (createGame (config_of ''dodge'' None) no_coins)"]
    gameOver_unguarded [of "gameOver (new_game Runner)"]
  unfolding dodge_hit_eq by (simp add: gameOver_def new_game_def)

text \<open>
  After the obstacle has hit the player and \<open>onGameOver\<close> has been invoked, the score
  timer of the dodge game fires: the score goes from 0 to 1 and \<open>onScore\<close> is invoked.
\<close>

theorem addScore_after_gameOver_counterexample:
  "terminal (run [SpawnTimer, CollisionStart 0 True]
       (createGame (config_of ''dodge'' None) no_coins)) \<and>
   score (run [SpawnTimer, CollisionStart 0 True]
       (createGame (config_of ''dodge'' None) no_coins)) = 0 \<and>
   score (run [SpawnTimer, CollisionStart 0 True, ScoreTimer]
       (createGame (config_of ''dodge'' None) no_coins)) = 1 \<and>
   calls (run [SpawnTimer, CollisionStart 0 True, ScoreTimer]
       (createGame (config_of ''dodge'' None) no_coins)) = [OnGameOver 0, OnScore 1]"
  by (simp add: createGame_def config_of_def setupDodge_def new_game_def scene_add_def
      gameOver_def addScore_def terminal_def gameOverCount_def)

text \<open>
  Claim C2, amended. The score never decreases along a run; every event changes it by 0,
  1, 5 or 10; and \<open>addScore\<close> adds its argument and reports the new total through
  \<open>onScore\<close> in every state, also after \<open>onGameOver\<close> has been invoked.
\<close>

theorem addScore_unguarded:
  "score g \<le> score (run evs g) \<and>
   score (deliver e g) - score g \<in> {0, 1, 5, 10} \<and>
   score (addScore n g) = score g + n \<and>
   calls (addScore n g) = calls g @ [OnScore (score g + n)]"
  by (simp add: score_run_mono score_deliver addScore_simps del: insert_iff)

theorem addScore_unguarded_witness:
  "score (gameOver (new_game Runner)) \<le> score (run [ScoreTimer] (gameOver (new_game Runner))) \<and>
   score (addScore 1 (gameOver (new_game Runner))) = 1 \<and>
   calls (addScore 1 (gameOver (new_game Runner))) = [OnGameOver 0, OnScore 1]"
  using addScore_unguarded [of "gameOver (new_game Runner)" "[ScoreTimer]" ScoreTimer 1]
  by (simp add: gameOver_def new_game_def)

section \<open>The dispatch of \<open>createGame\<close>\<close>

lemma mode_setupPlatformer_fold:
  "mode (fold (\<lambda>i g. if coin i then scene_add Collectible g else g) xs g0) = mode g0"
  by (induction xs arbitrary: g0) (simp_all add: scene_add_simps)

lemma mode_setupPlatformer: "mode (setupPlatformer coin) = Platformer"
  by (simp add: setupPlatformer_def mode_setupPlatformer_fold new_game_def)

text \<open>
  Claim C7. \<open>createGame\<close> builds a controller for every \<open>gameType\<close>: the one named, and
  the platformer for every string that is none of the four names.
\<close>

theorem createGame_total:
  "mode (createGame config coin) =
     (if gameType config = ''dodge'' then Dodge
      else if gameType config = ''collector'' then Collector
      else if gameType config = ''runner'' then Runner
      else Platformer) \<and>
   (gameType config \<notin> {''platformer'', ''dodge'', ''collector'', ''runner''} \<longrightarrow>
      createGame config coin = setupPlatformer coin)"
  by (simp add: createGame_def mode_setupPlatformer setupDodge_def setupCollector_def
      setupRunner_def new_game_def)

theorem createGame_total_witness:
  "createGame (config_of ''shooter'' None) no_coins = setupPlatformer no_coins \<and>
   mode (createGame (config_of ''shooter'' None) no_coins) = Platformer"
  using createGame_total [of "config_of ''shooter'' None" no_coins]
  by (simp add: config_of_def mode_setupPlatformer)

section \<open>The collector game\<close>

lemma length_filter_kill:
  "distinct (map fst xs) \<Longrightarrow> map_of xs a = Some k \<Longrightarrow>
   Suc (length (filter (\<lambda>(i, k). i \<noteq> a) xs)) = length xs"
proof (induction xs)
  case Nil
  then show ?case by simp
next
  case (Cons x xs)
  obtain i k' where x: "x = (i, k')" by (cases x)
  show ?case
  proof (cases "i = a")
    case True
    with Cons.prems x have "a \<notin> fst ` set xs" by simp
    then have "filter (\<lambda>(i, k). i \<noteq> a) xs = xs"
      by (force simp: filter_id_conv)
    with True x show ?thesis by simp
  next
    case False
    with Cons x show ?thesis by simp
  qed
qed

lemma ids_filter_kill: "fst ` set (filter (\<lambda>(i, k). i \<noteq> a) xs) = fst ` set xs - {a}"
  by (auto simp: image_iff)

lemma kinds_filter_kill: "snd ` set (filter (\<lambda>(i, k). i \<noteq> a) xs) \<subseteq> snd ` set xs"
  by auto

lemma collector_inv_init: "collector_inv setupCollector"
  by (simp add: collector_inv_def setupCollector_def new_game_def gameOverCount_def maxMissed_def)

lemma collector_inv_spawn: "collector_inv g \<Longrightarrow> collector_inv (scene_add Particle g)"
  by (auto simp: collector_inv_def scene_add_simps gameOverCount_simps)

lemma collector_inv_collect:
  assumes "collector_inv g" and "map_of (scene g) a = Some k"
  shows "collector_inv (kill a (addScore 5 g))"
proof -
  from assms have len: "Suc (length (filter (\<lambda>(i, k). i \<noteq> a) (scene g))) = length (scene g)"
    by (simp add: collector_inv_def length_filter_kill)
  from assms(1) have "snd ` set (filter (\<lambda>(i, k). i \<noteq> a) (scene g)) \<subseteq> {Particle}"
    using kinds_filter_kill [of a "scene g"] by (auto simp: collector_inv_def)
  with assms(1) len show ?thesis
    unfolding collector_inv_def
    by (simp add: session_simps gameOverCount_simps ids_filter_kill distinct_map_filter)
qed

lemma collector_inv_exit:
  assumes "collector_inv g" and "map_of (scene g) a = Some k"
  shows "collector_inv (exitviewport Particle a g)"
proof -
  from assms have len: "Suc (length (filter (\<lambda>(i, k). i \<noteq> a) (scene g))) = length (scene g)"
    by (simp add: collector_inv_def length_filter_kill)
  from assms(1) have "snd ` set (filter (\<lambda>(i, k). i \<noteq> a) (scene g)) \<subseteq> {Particle}"
    using kinds_filter_kill [of a "scene g"] by (auto simp: collector_inv_def)
  with assms(1) len show ?thesis
    unfolding collector_inv_def
    by (auto simp: session_simps gameOverCount_simps ids_filter_kill distinct_map_filter Let_def
        maxMissed_def gameOverCount_def gameOver_def)
qed

lemma collector_inv_kind:
  "collector_inv g \<Longrightarrow> map_of (scene g) a = Some k \<Longrightarrow> k = Particle"
  by (auto simp: collector_inv_def dest!: map_of_SomeD)

lemma collector_inv_deliver: "collector_inv g \<Longrightarrow> collector_inv (deliver e g)"
proof (cases e)
  case SpawnTimer
  assume "collector_inv g"
  with SpawnTimer show ?thesis
    using collector_inv_spawn [of g] by (simp add: collector_inv_def)
next
  case ScoreTimer
  assume "collector_inv g"
  with ScoreTimer show ?thesis by (simp add: collector_inv_def)
next
  case (CollisionStart a p)
  assume inv: "collector_inv g"
  show ?thesis
  proof (cases "map_of (scene g) a")
    case None
    with CollisionStart inv show ?thesis by simp
  next
    case (Some k)
    with inv have "k = Particle" by (rule collector_inv_kind)
    with CollisionStart Some inv show ?thesis
      by (simp add: collector_inv_collect)
  qed
next
  case (ExitViewport a)
  assume inv: "collector_inv g"
  show ?thesis
  proof (cases "map_of (scene g) a")
    case None
    with ExitViewport inv show ?thesis by simp
  next
    case (Some k)
    with inv have "k = Particle" by (rule collector_inv_kind)
    with ExitViewport Some inv show ?thesis
      using collector_inv_exit [of g a k] by simp
  qed
next
  case (PreUpdate y h)
  assume "collector_inv g"
  with PreUpdate show ?thesis by (simp add: collector_inv_def)
qed

lemma collector_inv_run: "collector_inv g \<Longrightarrow> collector_inv (run evs g)"
  by (induction evs arbitrary: g) (simp_all add: collector_inv_deliver)

lemma createGame_collector: "gameType cfg = ''collector'' \<Longrightarrow> createGame cfg coin = setupCollector"
  by (simp add: createGame_def)

lemma collector_inv_reachable:
  "gameType cfg = ''collector'' \<Longrightarrow> collector_inv (run evs (createGame cfg coin))"
  by (simp add: createGame_collector collector_inv_run collector_inv_init)

text \<open>
  Eleven particles are spawned and every one of them leaves the viewport uncollected:
  \<open>onGameOver\<close> is invoked at the tenth and again at the eleventh.
\<close>

theorem collector_gameOver_twice_counterexample:
  "missed (run eleven_missed (createGame (config_of ''collector'' None) no_coins)) = 11 \<and>
   gameOverCount (run eleven_missed (createGame (config_of ''collector'' None) no_coins)) = 2"
  by (simp add: eleven_missed_def createGame_def config_of_def setupCollector_def new_game_def scene_add_def
     kill_def gameOver_def gameOverCount_def maxMissed_def Let_def numeral_eq_Suc upt_rec)

lemma nine_missed_eq:
  "run (replicate 10 SpawnTimer @ map ExitViewport [0..<9])
      (createGame (config_of ''collector'' None) no_coins) =
     \<lparr>mode = Collector, score = 0, calls = [], missed = 9, scene = [(9, Particle)], created = 10\<rparr>"
  by (simp add: createGame_def config_of_def setupCollector_def new_game_def scene_add_def
     kill_def gameOver_def maxMissed_def Let_def numeral_eq_Suc upt_rec)

text \<open>
  Claim C3, amended. In a collector game \<open>onGameOver\<close> has been invoked \<open>missed - 9\<close>
  times (none while fewer than 10 particles were missed). Every particle that leaves the
  viewport uncollected adds 1 to \<open>missed\<close>; it invokes \<open>onGameOver\<close> when 9 or more were
  missed before it, so the tenth miss fires it and every further miss fires it again.
\<close>

theorem collector_gameOver_count:
  assumes "gameType cfg = ''collector''" and "g = run evs (createGame cfg coin)"
  shows
    "gameOverCount g = missed g - 9 \<and>
     (\<forall>a. map_of (scene g) a \<noteq> None \<longrightarrow>
        missed (deliver (ExitViewport a) g) = missed g + 1 \<and>
        gameOverCount (deliver (ExitViewport a) g) =
          (if 9 \<le> missed g then Suc (gameOverCount g) else gameOverCount g))"
proof -
  from assms have inv: "collector_inv g" by (simp add: collector_inv_reachable)
  then have count: "gameOverCount g = missed g - 9"
    by (simp add: collector_inv_def maxMissed_def)
  have "missed (deliver (ExitViewport a) g) = missed g + 1 \<and>
        gameOverCount (deliver (ExitViewport a) g) =
          (if 9 \<le> missed g then Suc (gameOverCount g) else gameOverCount g)"
    if "map_of (scene g) a \<noteq> None" for a
  proof -
    from that obtain k where k: "map_of (scene g) a = Some k" by auto
    with inv have "k = Particle" by (rule collector_inv_kind)
    with k show ?thesis
      by (simp add: Let_def maxMissed_def session_simps gameOverCount_simps)
  qed
  with count show ?thesis by blast
qed

theorem collector_gameOver_count_witness:
  "map_of (scene (run (replicate 10 SpawnTimer @ map ExitViewport [0..<9])
      (createGame (config_of ''collector'' None) no_coins))) 9 \<noteq> None \<and>
   gameOverCount (run (replicate 10 SpawnTimer @ map ExitViewport [0..<9])
      (createGame (config_of ''collector'' None) no_coins)) = 0 \<and>
   missed (deliver (ExitViewport 9) (run (replicate 10 SpawnTimer @ map ExitViewport [0..<9])
      (createGame (config_of ''collector'' None) no_coins))) = 10 \<and>
   gameOverCount (deliver (ExitViewport 9) (run (replicate 10 SpawnTimer @ map ExitViewport [0..<9])
      (createGame (config_of ''collector'' None) no_coins))) = 1"
proof -
  let ?g = "run (replicate 10 SpawnTimer @ map ExitViewport [0..<9])
      (createGame (config_of ''collector'' None) no_coins)"
  have cfg: "gameType (config_of ''collector'' None) = ''collector''"
    by (simp add: config_of_def)
  have present: "map_of (scene ?g) 9 \<noteq> None"
    unfolding nine_missed_eq by simp
  have start: "missed ?g = 9"
    unfolding nine_missed_eq by simp
  from collector_gameOver_count [OF cfg refl,
      of "replicate 10 SpawnTimer @ map ExitViewport [0..<9]" no_coins] present
  have "gameOverCount ?g = missed ?g - 9 \<and>
        missed (deliver (ExitViewport 9) ?g) = missed ?g + 1 \<and>
        gameOverCount (deliver (ExitViewport 9) ?g) =
          (if 9 \<le> missed ?g then Suc (gameOverCount ?g) else gameOverCount ?g)"
    by blast
  with present start show ?thesis by simp
qed

subsection \<open>Each particle is counted once\<close>

lemma created_collisionstart: "created (collisionstart k a p g) = created g"
  by (cases k) (simp_all add: session_simps)

lemma created_exitviewport: "created (exitviewport k a g) = created g"
  by (cases k) (simp_all add: session_simps Let_def)

lemma ids_collisionstart: "fst ` set (scene (collisionstart k a p g)) \<subseteq> fst ` set (scene g)"
  by (cases k) (auto simp: session_simps)

lemma ids_exitviewport: "fst ` set (scene (exitviewport k a g)) \<subseteq> fst ` set (scene g)"
  by (cases k) (auto simp: session_simps Let_def)

lemma gone_deliver:
  assumes "a < created g" and "a \<notin> fst ` set (scene g)"
  shows "a < created (deliver e g) \<and> a \<notin> fst ` set (scene (deliver e g))"
proof (cases e)
  case SpawnTimer
  with assms show ?thesis by (cases "mode g") (auto simp: session_simps)
next
  case ScoreTimer
  with assms show ?thesis by (cases "mode g") (auto simp: session_simps)
next
  case (CollisionStart b p)
  with assms show ?thesis
    using ids_collisionstart [of _ b p g]
    by (cases "map_of (scene g) b") (auto simp: created_collisionstart)
next
  case (ExitViewport b)
  with assms show ?thesis
    using ids_exitviewport [of _ b g]
    by (cases "map_of (scene g) b") (auto simp: created_exitviewport)
next
  case (PreUpdate y h)
  with assms show ?thesis by (cases "mode g") (auto simp: session_simps)
qed

lemma gone_run:
  "a < created g \<Longrightarrow> a \<notin> fst ` set (scene g) \<Longrightarrow>
   a < created (run evs g) \<and> a \<notin> fst ` set (scene (run evs g))"
proof (induction evs arbitrary: g)
  case Nil
  then show ?case by simp
next
  case (Cons e evs)
  from Cons.prems have "a < created (deliver e g) \<and> a \<notin> fst ` set (scene (deliver e g))"
    by (rule gone_deliver)
  then show ?case using Cons.IH [of "deliver e g"] by simp
qed

lemma gone_ignored:
  "a \<notin> fst ` set (scene g) \<Longrightarrow>
   deliver (ExitViewport a) g = g \<and> deliver (CollisionStart a p) g = g"
proof -
  assume "a \<notin> fst ` set (scene g)"
  then have "map_of (scene g) a = None" by (simp add: map_of_eq_None_iff)
  then show ?thesis by simp
qed

lemma two_rewards_eq:
  "run [SpawnTimer, SpawnTimer] (createGame (config_of ''collector'' None) no_coins) =
     \<lparr>mode = Collector, score = 0, calls = [], missed = 0,
      scene = [(0, Particle), (1, Particle)], created = 2\<rparr>"
  by (simp add: createGame_def config_of_def setupCollector_def new_game_def scene_add_def)

text \<open>
  Claim C10. In every state a collector game reaches, the actors of the scene are
  distinct and every particle created so far is in exactly one of three places: still
  in the scene, missed, or collected for 5 points. For a particle in the scene, a
  collision with the player scores 5 and leaves \<open>missed\<close> unchanged, its leaving the
  viewport adds 1 to \<open>missed\<close> and leaves the score unchanged, and after either no later
  \<open>exitviewport\<close> (or collision) of that particle changes the state.
\<close>

theorem collector_counts_once:
  assumes "gameType cfg = ''collector''" and "g = run evs (createGame cfg coin)"
  shows
    "distinct (map fst (scene g)) \<and>
     5 * int (created g) = 5 * int (length (scene g)) + 5 * int (missed g) + score g \<and>
     (\<forall>a. map_of (scene g) a \<noteq> None \<longrightarrow>
        score (deliver (CollisionStart a True) g) = score g + 5 \<and>
        missed (deliver (CollisionStart a True) g) = missed g \<and>
        score (deliver (ExitViewport a) g) = score g \<and>
        missed (deliver (ExitViewport a) g) = missed g + 1 \<and>
        (\<forall>later. deliver (ExitViewport a) (run later (deliver (CollisionStart a True) g)) =
                   run later (deliver (CollisionStart a True) g)) \<and>
        (\<forall>later p. deliver (ExitViewport a) (run later (deliver (ExitViewport a) g)) =
                     run later (deliver (ExitViewport a) g) \<and>
                   deliver (CollisionStart a p) (run later (deliver (ExitViewport a) g)) =
                     run later (deliver (ExitViewport a) g)))"
proof -
  from assms have inv: "collector_inv g" by (simp add: collector_inv_reachable)
  have per_reward:
    "score (deliver (CollisionStart a True) g) = score g + 5 \<and>
     missed (deliver (CollisionStart a True) g) = missed g \<and>
     score (deliver (ExitViewport a) g) = score g \<and>
     missed (deliver (ExitViewport a) g) = missed g + 1 \<and>
     (\<forall>later. deliver (ExitViewport a) (run later (deliver (CollisionStart a True) g)) =
                run later (deliver (CollisionStart a True) g)) \<and>
     (\<forall>later p. deliver (ExitViewport a) (run later (deliver (ExitViewport a) g)) =
                  run later (deliver (ExitViewport a) g) \<and>
                deliver (CollisionStart a p) (run later (deliver (ExitViewport a) g)) =
                  run later (deliver (ExitViewport a) g))"
    if present: "map_of (scene g) a \<noteq> None" for a
  proof -
    from present obtain k where k: "map_of (scene g) a = Some k" by auto
    with inv have kind: "k = Particle" by (rule collector_inv_kind)
    from k have "a \<in> fst ` set (scene g)" by (auto dest!: map_of_SomeD simp: image_iff intro: bexI [of _ "(a, k)"])
    with inv have old: "a < created g" by (auto simp: collector_inv_def)
    let ?c = "deliver (CollisionStart a True) g"
    let ?x = "deliver (ExitViewport a) g"
    have c: "?c = kill a (addScore 5 g)" using k kind by simp
    have x_scene: "scene ?x = scene (kill a g)" and x_created: "created ?x = created g"
      and x_score: "score ?x = score g" and x_missed: "missed ?x = missed g + 1"
      using k kind by (simp_all add: Let_def session_simps)
    have c_gone: "a < created ?c \<and> a \<notin> fst ` set (scene ?c)"
      unfolding c using old by (auto simp: session_simps)
    have x_gone: "a < created ?x \<and> a \<notin> fst ` set (scene ?x)"
      unfolding x_scene x_created using old by (auto simp: session_simps)
    have c_later: "deliver (ExitViewport a) (run later ?c) = run later ?c" for later
      using gone_run [of a ?c later] c_gone gone_ignored [of a "run later ?c"] by simp
    have x_later: "deliver (ExitViewport a) (run later ?x) = run later ?x \<and>
        deliver (CollisionStart a p) (run later ?x) = run later ?x" for later p
      using gone_run [of a ?x later] x_gone gone_ignored [of a "run later ?x" p] by simp
    show ?thesis
      using c_later x_later x_score x_missed c
      by (simp add: session_simps del: deliver.simps)
  qed
  from inv have "distinct (map fst (scene g))"
    and "5 * int (created g) = 5 * int (length (scene g)) + 5 * int (missed g) + score g"
    by (simp_all add: collector_inv_def)
  with per_reward show ?thesis by blast
qed

theorem collector_counts_once_witness:
  "map_of (scene (run [SpawnTimer, SpawnTimer]
       (createGame (config_of ''collector'' None) no_coins))) 0 \<noteq> None \<and>
   score (deliver (CollisionStart 0 True) (run [SpawnTimer, SpawnTimer]
       (createGame (config_of ''collector'' None) no_coins))) = 5 \<and>
   missed (deliver (ExitViewport 0) (run [SpawnTimer, SpawnTimer]
       (createGame (config_of ''collector'' None) no_coins))) = 1 \<and>
   deliver (ExitViewport 0) (run [SpawnTimer] (deliver (CollisionStart 0 True)
       (run [SpawnTimer, SpawnTimer] (createGame (config_of ''collector'' None) no_coins)))) =
     run [SpawnTimer] (deliver (CollisionStart 0 True)
       (run [SpawnTimer, SpawnTimer] (createGame (config_of ''collector'' None) no_coins)))"
proof -
  let ?g = "run [SpawnTimer, SpawnTimer] (createGame (config_of ''collector'' None) no_coins)"
  have cfg: "gameType (config_of ''collector'' None) = ''collector''"
    by (simp add: config_of_def)
  have present: "map_of (scene ?g) 0 \<noteq> None"
    unfolding two_rewards_eq by simp
  have start: "score ?g = 0" "missed ?g = 0"
    unfolding two_rewards_eq by simp_all
  from collector_counts_once [OF cfg refl, of "[SpawnTimer, SpawnTimer]" no_coins] present
  have "score (deliver (CollisionStart 0 True) ?g) = score ?g + 5 \<and>
        missed (deliver (ExitViewport 0) ?g) = missed ?g + 1 \<and>
        deliver (ExitViewport 0) (run [SpawnTimer] (deliver (CollisionStart 0 True) ?g)) =
          run [SpawnTimer] (deliver (CollisionStart 0 True) ?g)"
    by blast
  with present start show ?thesis by presburger
qed

section \<open>The beat pulse of the two engine texts\<close>

text \<open>
  At energy 0.8 the pulse of src/src/game/engine.ts sets the opacity to 0.08, not to
  \<open>0.04 + 0.8 * 0.06 = 0.088\<close>, and four beats shake nothing; at energy 0 the pulse of the
  second engine falls back to energy 0.5 and sets 0.07, not 0.04.
\<close>

theorem pulse_constant_counterexample:
  "opacity (pulse_fcn (config_of ''dodge'' (Some (metrics_of (Fin 140) (Fin 0.8) (Fin 0.2)))) new_pulse)
     = Fin 0.08 \<and>
   js_add (Fin 0.04) (js_mul (Fin 0.8) (Fin 0.06)) = Fin 0.088 \<and>
   shakes (pulse_fcn (config_of ''dodge'' (Some (metrics_of (Fin 140) (Fin 0.8) (Fin 0.2))))
     (pulse_fcn (config_of ''dodge'' (Some (metrics_of (Fin 140) (Fin 0.8) (Fin 0.2))))
     (pulse_fcn (config_of ''dodge'' (Some (metrics_of (Fin 140) (Fin 0.8) (Fin 0.2))))
     (pulse_fcn (config_of ''dodge'' (Some (metrics_of (Fin 140) (Fin 0.8) (Fin 0.2))))
       new_pulse)))) = [] \<and>
   opacity (pulse_fcn_v2 (config_of ''dodge'' (Some (metrics_of (Fin 140) (Fin 0) (Fin 0.2)))) new_pulse)
     = Fin 0.07 \<and>
   js_add (Fin 0.04) (js_mul (Fin 0) (Fin 0.06)) = Fin 0.04"
  by (simp add: pulse_fcn_def pulse_fcn_v2_def pulse_energy_def js_or_def config_of_def metrics_of_def
      new_pulse_def Let_def)

text \<open>
  Claim C9, amended. In the second engine (src/src/types/game.ts) every firing of the
  pulse timer sets the opacity to \<open>0.04 + energy * 0.06\<close> and fades it to 0 over 0.8 beat
  intervals, and counts the beat; on every fourth beat, when \<open>energy > 0.5\<close>, it shakes
  the camera by \<open>(energy - 0.5) * 6\<close> for 0.3 beat intervals. Here \<open>energy\<close> is \<open>avgEnergy\<close>
  when the metrics are present and \<open>avgEnergy\<close> is truthy, and 0.5 otherwise. In the engine
  of src/src/game/engine.ts every firing sets the opacity to 0.08 and fades it to 0 over
  0.8 beat intervals; it counts no beats and shakes nothing.
\<close>

theorem beat_pulse_spec:
  "opacity (pulse_fcn_v2 config p) = js_add (Fin 0.04) (js_mul (pulse_energy config) (Fin 0.06)) \<and>
   fades (pulse_fcn_v2 config p) = fades p @ [(Fin 0, js_mul (getBeatMs config) (Fin 0.8))] \<and>
   beatCount (pulse_fcn_v2 config p) = beatCount p + 1 \<and>
   shakes (pulse_fcn_v2 config p) =
     (if (beatCount p + 1) mod 4 = 0 \<and> js_less (Fin 0.5) (pulse_energy config)
      then shakes p @
        [(js_mul (js_sub (pulse_energy config) (Fin 0.5)) (Fin 6),
          js_mul (js_sub (pulse_energy config) (Fin 0.5)) (Fin 6),
          js_mul (getBeatMs config) (Fin 0.3))]
      else shakes p) \<and>
   (\<forall>m. metrics config = Some m \<and> truthy (avgEnergy m) \<longrightarrow> pulse_energy config = avgEnergy m) \<and>
   (\<forall>m. metrics config = Some m \<and> \<not> truthy (avgEnergy m) \<longrightarrow> pulse_energy config = Fin 0.5) \<and>
   (metrics config = None \<longrightarrow> pulse_energy config = Fin 0.5) \<and>
   opacity (pulse_fcn config p) = Fin 0.08 \<and>
   fades (pulse_fcn config p) = fades p @ [(Fin 0, js_mul (beatInterval config) (Fin 0.8))] \<and>
   beatCount (pulse_fcn config p) = beatCount p \<and>
   shakes (pulse_fcn config p) = shakes p"
  by (simp add: pulse_fcn_v2_def pulse_fcn_def pulse_energy_def js_or_def Let_def)

theorem beat_pulse_spec_witness:
  "pulse_energy (config_of ''dodge'' (Some (metrics_of (Fin 120) (Fin 0.8) (Fin 0.2)))) = Fin 0.8 \<and>
   pulse_fcn_v2 (config_of ''dodge'' (Some (metrics_of (Fin 120) (Fin 0.8) (Fin 0.2))))
       (new_pulse\<lparr>beatCount := 3\<rparr>) =
     \<lparr>opacity = Fin 0.088, fades = [(Fin 0, Fin 400)], beatCount = 4,
      shakes = [(Fin 1.8, Fin 1.8, Fin 150)]\<rparr> \<and>
   pulse_fcn (config_of ''dodge'' (Some (metrics_of (Fin 120) (Fin 0.8) (Fin 0.2))))
       (new_pulse\<lparr>beatCount := 3\<rparr>) =
     \<lparr>opacity = Fin 0.08, fades = [(Fin 0, Fin 400)], beatCount = 3, shakes = []\<rparr>"
  using beat_pulse_spec [of "config_of ''dodge'' (Some (metrics_of (Fin 120) (Fin 0.8) (Fin 0.2)))"
      "new_pulse\<lparr>beatCount := 3\<rparr>"]
  by (simp add: pulse_fcn_v2_def pulse_fcn_def pulse_energy_def beatInterval_def getBeatMs_def
      getBpm_def js_or_def js_sub_def config_of_def metrics_of_def new_pulse_def Let_def)

end
